theory Spec2Isabelle
  imports Main "HOL-Library.Word"
begin

section \<open>Strings\<close>

text \<open>
  A Go string is a sequence of bytes; it is modelled as a \<open>string\<close>, one \<open>char\<close> per
  byte. The functions of this section are the ones the service takes from Go's package
  \<open>strings\<close>; they are written down here from the documented behaviour of that package.
\<close>

definition HasPrefix :: "string \<Rightarrow> string \<Rightarrow> bool" where
  "HasPrefix s p = (length p \<le> length s \<and> take (length p) s = p)"

definition HasSuffix :: "string \<Rightarrow> string \<Rightarrow> bool" where
  "HasSuffix s p = (length p \<le> length s \<and> drop (length s - length p) s = p)"

fun Contains :: "string \<Rightarrow> string \<Rightarrow> bool" where
  "Contains [] sub = (sub = [])"
| "Contains (c # cs) sub = (HasPrefix (c # cs) sub \<or> Contains cs sub)"

definition TrimPrefix :: "string \<Rightarrow> string \<Rightarrow> string" where
  "TrimPrefix s p = (if HasPrefix s p then drop (length p) s else s)"

text \<open>
  \<open>strings.TrimSpace\<close> removes leading and trailing white space as Unicode defines it.
  \<open>spaceRunes\<close> lists the UTF-8 encodings of the code points for which
  \<open>unicode.IsSpace\<close> holds: tab, line feed, vertical tab, form feed, carriage return,
  space, U+0085, U+00A0, U+1680, U+2000 to U+200A, U+2028, U+2029, U+202F, U+205F and
  U+3000. A byte sequence that is not a well-formed encoding of one of them is kept.
\<close>

definition spaceRunes :: "string list" where
  "spaceRunes =
    [[CHR 0x09], [CHR 0x0A], [CHR 0x0B], [CHR 0x0C], [CHR 0x0D], [CHR 0x20],
     [CHR 0xC2, CHR 0x85], [CHR 0xC2, CHR 0xA0],
     [CHR 0xE1, CHR 0x9A, CHR 0x80],
     [CHR 0xE2, CHR 0x80, CHR 0x80], [CHR 0xE2, CHR 0x80, CHR 0x81],
     [CHR 0xE2, CHR 0x80, CHR 0x82], [CHR 0xE2, CHR 0x80, CHR 0x83],
     [CHR 0xE2, CHR 0x80, CHR 0x84], [CHR 0xE2, CHR 0x80, CHR 0x85],
     [CHR 0xE2, CHR 0x80, CHR 0x86], [CHR 0xE2, CHR 0x80, CHR 0x87],
     [CHR 0xE2, CHR 0x80, CHR 0x88], [CHR 0xE2, CHR 0x80, CHR 0x89],
     [CHR 0xE2, CHR 0x80, CHR 0x8A],
     [CHR 0xE2, CHR 0x80, CHR 0xA8], [CHR 0xE2, CHR 0x80, CHR 0xA9],
     [CHR 0xE2, CHR 0x80, CHR 0xAF],
     [CHR 0xE2, CHR 0x81, CHR 0x9F],
     [CHR 0xE3, CHR 0x80, CHR 0x80]]"

definition leadingSpace :: "string \<Rightarrow> nat" where
  "leadingSpace s = (case find (HasPrefix s) spaceRunes of None \<Rightarrow> 0 | Some p \<Rightarrow> length p)"

definition trailingSpace :: "string \<Rightarrow> nat" where
  "trailingSpace s = (case find (HasSuffix s) spaceRunes of None \<Rightarrow> 0 | Some p \<Rightarrow> length p)"

function TrimLeftSpace :: "string \<Rightarrow> string" where
  "TrimLeftSpace s = (if leadingSpace s = 0 then s else TrimLeftSpace (drop (leadingSpace s) s))"
  by pat_completeness auto
termination
proof (relation "measure length")
  show "wf (measure length)" by simp
next
  fix s :: string
  assume "leadingSpace s \<noteq> 0"
  moreover have "leadingSpace [] = 0"
    by (simp add: leadingSpace_def spaceRunes_def HasPrefix_def)
  ultimately have "s \<noteq> []" by auto
  with \<open>leadingSpace s \<noteq> 0\<close> show "(drop (leadingSpace s) s, s) \<in> measure length"
    by simp
qed

function TrimRightSpace :: "string \<Rightarrow> string" where
  "TrimRightSpace s =
     (if trailingSpace s = 0 then s else TrimRightSpace (take (length s - trailingSpace s) s))"
  by pat_completeness auto
termination
proof (relation "measure length")
  show "wf (measure length)" by simp
next
  fix s :: string
  assume "trailingSpace s \<noteq> 0"
  moreover have "trailingSpace [] = 0"
    by (simp add: trailingSpace_def spaceRunes_def HasSuffix_def)
  ultimately have "s \<noteq> []" by auto
  with \<open>trailingSpace s \<noteq> 0\<close> show "(take (length s - trailingSpace s) s, s) \<in> measure length"
    by simp
qed

declare TrimLeftSpace.simps [simp del] TrimRightSpace.simps [simp del]

definition TrimSpace :: "string \<Rightarrow> string" where
  "TrimSpace s = TrimRightSpace (TrimLeftSpace s)"

section \<open>Paths and scanned numbers\<close>

text \<open>
  \<open>filepath.Join\<close> drops empty elements, joins the rest with a slash and cleans the
  result (\<open>filepath.Clean\<close>: no doubled slash, no \<open>.\<close> element, \<open>..\<close> resolved against
  the element before it). All empty elements give the empty string.
\<close>

fun splitSlash :: "string \<Rightarrow> string list" where
  "splitSlash [] = [[]]"
| "splitSlash (c # cs) =
     (if c = CHR ''/'' then [] # splitSlash cs
      else (case splitSlash cs of [] \<Rightarrow> [[c]] | x # xs \<Rightarrow> (c # x) # xs))"

fun joinSlash :: "string list \<Rightarrow> string" where
  "joinSlash [] = []"
| "joinSlash [x] = x"
| "joinSlash (x # y # ys) = x @ ''/'' @ joinSlash (y # ys)"

fun cleanStep :: "bool \<Rightarrow> string list \<Rightarrow> string \<Rightarrow> string list" where
  "cleanStep rooted stack elem =
     (if elem = '''' \<or> elem = ''.'' then stack
      else if elem = ''..'' then
        (if stack \<noteq> [] \<and> last stack \<noteq> ''..'' then butlast stack
         else if rooted then stack
         else stack @ [elem])
      else stack @ [elem])"

definition Clean :: "string \<Rightarrow> string" where
  "Clean p =
     (let rooted = HasPrefix p ''/'';
          out = (if rooted then ''/'' else '''') @
                joinSlash (foldl (cleanStep rooted) [] (splitSlash p))
      in if out = '''' then ''.'' else out)"

definition Join :: "string list \<Rightarrow> string" where
  "Join elems =
     (let es = filter (\<lambda>e. e \<noteq> '''') elems
      in if es = [] then '''' else Clean (joinSlash es))"

text \<open>
  An \<open>int64\<close> is a 64-bit word: \<open>+\<close>, \<open>-\<close> and \<open>*\<close> wrap around as Go's do, and the
  comparisons of the source are the signed ones (\<open>\<le>s\<close>, \<open><s\<close>). A Go \<open>error\<close> is
  modelled by its message; a function returning \<open>(v, error)\<close> returns a pair whose second
  component is \<open>None\<close> for \<open>nil\<close>.
\<close>

type_synonym int64 = "64 word"

type_synonym error = string

text \<open>
  \<open>fmt.Sscanf(s, "%d", &v)\<close> for an \<open>int64\<close>, on a string without leading white space
  (both callers trim first): an optional sign, then the longest run of decimal digits
  and underscores, which must be non-empty and which \<open>strconv.ParseInt\<close> in base 10
  then rejects if it holds an underscore or does not fit 64 bits. Text after the number
  is not an error.
\<close>

definition isDigit :: "char \<Rightarrow> bool" where
  "isDigit c = (c \<in> set ''0123456789'')"

definition digitVal :: "char \<Rightarrow> int" where
  "digitVal c = of_char c - 48"

definition decimal :: "string \<Rightarrow> int" where
  "decimal ds = foldl (\<lambda>v c. 10 * v + digitVal c) 0 ds"

definition Sscanf_d :: "string \<Rightarrow> int64 \<times> error option" where
  "Sscanf_d s =
     (if s = [] then (0, Some ''unexpected EOF'')
      else
        (let neg = (hd s = CHR ''-'');
             r = (if hd s = CHR ''+'' \<or> hd s = CHR ''-'' then tl s else s);
             tok = takeWhile (\<lambda>c. isDigit c \<or> c = CHR ''_'') r
         in if r = [] then (0, Some ''unexpected EOF'')
            else if tok = [] then (0, Some ''expected integer'')
            else if \<not> list_all isDigit tok then (0, Some ''invalid syntax'')
            else if neg then
              (if decimal tok \<le> 2 ^ 63 then (- (word_of_int (decimal tok)), None)
               else (0, Some ''value out of range''))
            else
              (if decimal tok < 2 ^ 63 then (word_of_int (decimal tok), None)
               else (0, Some ''value out of range''))))"

section \<open>Configuration and server state (types.go, config.go)\<close>

text \<open>
  Go's \<open>int\<close> (64 bits on the platforms the service runs on) and \<open>time.Duration\<close>
  (an \<open>int64\<close> of nanoseconds) are 64-bit words as well.
\<close>

record Config =
  WorkingDir :: string
  Addr :: string
  BaseDir :: string
  JobsDir :: string
  ArtifactsDir :: string
  EnableStaticArtifacts :: bool
  ArtifactTTL :: int64
  ArtifactTTLDays :: int64
  CleanupIntervalMins :: int64
  DefaultArgs :: "string list"
  NsJailEnabled :: bool
  NsJailPath :: string
  CgroupV2Root :: string
  EnableResourceGating :: bool
  JobMemoryEstimateMB :: int64

definition DefaultConfig :: Config where
  "DefaultConfig = \<lparr>
     WorkingDir = ''/srv/emcc-sandboxd'',
     Addr = '':8080'',
     BaseDir = ''.'',
     JobsDir = ''jobs'',
     ArtifactsDir = ''artifacts'',
     EnableStaticArtifacts = True,
     ArtifactTTL = 0,
     ArtifactTTLDays = 3,
     CleanupIntervalMins = 30,
     DefaultArgs = [''-sINVOKE_RUN=0'', ''-sENVIRONMENT=web'',
                    ''-sALLOW_MEMORY_GROWTH=1'', ''-sMODULARIZE=1''],
     NsJailEnabled = False,
     NsJailPath = ''nsjail'',
     CgroupV2Root = ''cgroup'',
     EnableResourceGating = False,
     JobMemoryEstimateMB = 256 \<rparr>"

record Server =
  cfg :: Config
  memBudgetBytes :: int64
  memReservedBytes :: int64

section \<open>The argument filter (args.go)\<close>

definition allowedPrefix :: "string list" where
  "allowedPrefix =
    [''-O0'', ''-O1'', ''-O2'', ''-O3'', ''-Os'', ''-Oz'',
     ''-g'', ''-g4'',
     ''-sMODULARIZE='',
     ''-sENVIRONMENT='',
     ''-sINVOKE_RUN='',
     ''-sEXPORTED_FUNCTIONS='',
     ''-sEXPORTED_RUNTIME_METHODS='',
     ''-sALLOW_MEMORY_GROWTH='',
     ''--preload-file'',
     ''--embed-file'',
     ''--source-map-base'']"

definition blocked :: "string list" where
  "blocked = [''-o'', ''--shell-file'', ''-sFORCE_FILESYSTEM'', ''-sENVIRONMENT=node'']"

fun isBlockedArg :: "string \<Rightarrow> string list \<Rightarrow> bool" where
  "isBlockedArg a [] = False"
| "isBlockedArg a (b # bs) =
     (if a = b \<or> HasPrefix a (b @ ''='') then True else isBlockedArg a bs)"

fun isAllowedArg :: "string \<Rightarrow> string list \<Rightarrow> bool" where
  "isAllowedArg a [] = False"
| "isAllowedArg a (p # ps) =
     (if HasPrefix a p \<or> a = p then True else isAllowedArg a ps)"

definition safeArgPath :: "string \<Rightarrow> bool" where
  "safeArgPath p =
     (if HasPrefix p ''/'' then False
      else if Contains p ''..'' then False
      else True)"

definition isPairFlag :: "string \<Rightarrow> bool" where
  "isPairFlag a = (a = ''--preload-file'' \<or> a = ''--embed-file'' \<or> a = ''--source-map-base'')"

text \<open>
  The loop of \<open>MergeAndFilterArgs\<close> over \<open>user[i:]\<close>, with \<open>result\<close> as accumulator.
  The second equation is the last index, where \<open>i+1 < len(user)\<close> fails and a pair flag
  is treated like any other token.
\<close>

fun filterLoop :: "string list \<Rightarrow> string list \<Rightarrow> string list" where
  "filterLoop [] result = result"
| "filterLoop [u] result =
     (let a = TrimSpace u in
      if a = '''' then result
      else if isBlockedArg a blocked then result
      else if isAllowedArg a allowedPrefix then result @ [a]
      else result)"
| "filterLoop (u # n # rest) result =
     (let a = TrimSpace u in
      if a = '''' then filterLoop (n # rest) result
      else if isPairFlag a then
        (let next = TrimSpace n in
         if \<not> safeArgPath next then filterLoop rest result
         else filterLoop rest (result @ [a, next]))
      else if isBlockedArg a blocked then filterLoop (n # rest) result
      else if isAllowedArg a allowedPrefix then filterLoop (n # rest) (result @ [a])
      else filterLoop (n # rest) result)"

definition MergeAndFilterArgs :: "Server \<Rightarrow> string list \<Rightarrow> string list" where
  "MergeAndFilterArgs s user = filterLoop user ([] @ DefaultArgs (cfg s))"

text \<open>
  The same loop, recording for every appended token where it comes from: the operator's
  defaults, a single accepted token, or the flag and the value of an accepted pair.
  Erasing the record gives \<open>filterLoop\<close> (lemma \<open>filterLoopT_erase\<close>).
\<close>

datatype origin = FromDefaults | Single | PairFlag | PairValue

fun filterLoopT :: "string list \<Rightarrow> (string \<times> origin) list \<Rightarrow> (string \<times> origin) list" where
  "filterLoopT [] result = result"
| "filterLoopT [u] result =
     (let a = TrimSpace u in
      if a = '''' then result
      else if isBlockedArg a blocked then result
      else if isAllowedArg a allowedPrefix then result @ [(a, Single)]
      else result)"
| "filterLoopT (u # n # rest) result =
     (let a = TrimSpace u in
      if a = '''' then filterLoopT (n # rest) result
      else if isPairFlag a then
        (let next = TrimSpace n in
         if \<not> safeArgPath next then filterLoopT rest result
         else filterLoopT rest (result @ [(a, PairFlag), (next, PairValue)]))
      else if isBlockedArg a blocked then filterLoopT (n # rest) result
      else if isAllowedArg a allowedPrefix then filterLoopT (n # rest) (result @ [(a, Single)])
      else filterLoopT (n # rest) result)"

definition MergeAndFilterArgsT :: "Server \<Rightarrow> string list \<Rightarrow> (string \<times> origin) list" where
  "MergeAndFilterArgsT s user =
     filterLoopT user (map (\<lambda>d. (d, FromDefaults)) ([] @ DefaultArgs (cfg s)))"



definition pairValuesSafe :: "(string \<times> origin) list \<Rightarrow> bool" where
  "pairValuesSafe ts =
     (\<forall>j < length ts. snd (ts ! j) = PairValue \<longrightarrow>
        \<not> HasPrefix (fst (ts ! j)) ''/'' \<and> \<not> Contains (fst (ts ! j)) ''..'' \<and>
        0 < j \<and> snd (ts ! (j - 1)) = PairFlag \<and> isPairFlag (fst (ts ! (j - 1))))"

section \<open>Resource gating (cgroup probe and admission control)\<close>

text \<open>
  The file system is an oracle: \<open>ReadFile\<close> maps a path to the result of
  \<open>os.ReadFile\<close>. It is a parameter of every function that reads a file.
\<close>

type_synonym filesys = "string \<Rightarrow> string \<times> error option"

definition readCgroupMemoryMax :: "string \<Rightarrow> filesys \<Rightarrow> int64 \<times> error option" where
  "readCgroupMemoryMax root ReadFile =
     (if root = '''' then (0, Some ''cgroup root not set'')
      else
        (case ReadFile (Join [root, ''memory.max'']) of
           (b, Some err) \<Rightarrow> (0, Some err)
         | (b, None) \<Rightarrow>
             (let s = TrimSpace b in
              if s = ''max'' then (0, None)
              else
                (case Sscanf_d s of
                   (v, Some err) \<Rightarrow> (0, Some err)
                 | (v, None) \<Rightarrow> (v, None)))))"

definition readCgroupMemoryCurrent :: "string \<Rightarrow> filesys \<Rightarrow> int64 \<times> error option" where
  "readCgroupMemoryCurrent root ReadFile =
     (case ReadFile (Join [root, ''memory.current'']) of
        (b, Some err) \<Rightarrow> (0, Some err)
      | (b, None) \<Rightarrow>
          (case Sscanf_d (TrimSpace b) of
             (v, Some err) \<Rightarrow> (0, Some err)
           | (v, None) \<Rightarrow> (v, None)))"

definition ensureMemBudget :: "Server \<Rightarrow> filesys \<Rightarrow> error option \<times> Server" where
  "ensureMemBudget s ReadFile =
     (if 0 <s memBudgetBytes s then (None, s)
      else
        (case readCgroupMemoryMax (CgroupV2Root (cfg s)) ReadFile of
           (mx, Some err) \<Rightarrow> (Some err, s)
         | (mx, None) \<Rightarrow>
             (if mx \<le>s 0 then (None, s\<lparr>memBudgetBytes := 0\<rparr>)
              else (None, s\<lparr>memBudgetBytes := mx\<rparr>))))"

text \<open>
  \<open>acquireMemory\<close> loops until the reservation is granted or the context is done.
  The environment of a call is the list of what each pass through the loop observes: the
  file system at the moment of the probe, and which case of the \<open>select\<close> fires when
  the pass has to wait (\<open>Done err\<close>: the context is done and \<open>ctx.Err()\<close> is \<open>err\<close>;
  \<open>Tick\<close>: the 200 ms ticker). The result is \<open>None\<close> when the observations run out
  before the call returns. \<open>tryAcquire\<close> is one pass taken alone, up to its \<open>select\<close>:
  \<open>Some\<close> of the updated server when \<open>reserved\<close> was incremented, \<open>None\<close> when the
  caller has to wait (lemma \<open>acquireMemory_pass\<close> relates the two).
\<close>

datatype select = Done error | Tick

definition reserve :: "Server \<Rightarrow> int64 \<Rightarrow> Server" where
  "reserve s estimateBytes = s\<lparr>memReservedBytes := memReservedBytes s + estimateBytes\<rparr>"

definition tryAcquire :: "Server \<Rightarrow> int64 \<Rightarrow> filesys \<Rightarrow> Server option" where
  "tryAcquire s estimateBytes ReadFile =
     (let mx = memBudgetBytes s in
      if mx = 0 then Some (reserve s estimateBytes)
      else
        (case readCgroupMemoryCurrent (CgroupV2Root (cfg s)) ReadFile of
           (cur, Some err) \<Rightarrow> None
         | (cur, None) \<Rightarrow>
             (if cur + memReservedBytes s + estimateBytes \<le>s mx
              then Some (reserve s estimateBytes)
              else None)))"

fun acquireMemory :: "Server \<Rightarrow> int64 \<Rightarrow> (filesys \<times> select) list \<Rightarrow> (error option \<times> Server) option" where
  "acquireMemory s estimateBytes [] =
     (if memBudgetBytes s = 0 then Some (None, reserve s estimateBytes) else None)"
| "acquireMemory s estimateBytes ((ReadFile, sel) # evs) =
     (let mx = memBudgetBytes s in
      if mx = 0 then Some (None, reserve s estimateBytes)
      else
        (case readCgroupMemoryCurrent (CgroupV2Root (cfg s)) ReadFile of
           (cur, Some err) \<Rightarrow>
             (case sel of
                Done cerr \<Rightarrow> Some (Some cerr, s)
              | Tick \<Rightarrow> acquireMemory s estimateBytes evs)
         | (cur, None) \<Rightarrow>
             (if cur + memReservedBytes s + estimateBytes \<le>s mx
              then Some (None, reserve s estimateBytes)
              else
                (case sel of
                   Done cerr \<Rightarrow> Some (Some cerr, s)
                 | Tick \<Rightarrow> acquireMemory s estimateBytes evs))))"

declare acquireMemory.simps(2) [simp del]

text \<open>
  The ticker of \<open>acquireMemory\<close> is made by \<open>time.NewTicker(200 * time.Millisecond)\<close>, so
  the passes of one call start one period apart (a pass itself taking less than a
  period). \<open>acquireWaited\<close> is the time a call has spent waiting on that ticker: one
  period for every tick it receives.
\<close>

definition Millisecond :: int64 where
  "Millisecond = 1000000"

definition tickerPeriod :: int64 where
  "tickerPeriod = 200 * Millisecond"

fun acquireWaited :: "Server \<Rightarrow> int64 \<Rightarrow> (filesys \<times> select) list \<Rightarrow> int64" where
  "acquireWaited s estimateBytes [] = 0"
| "acquireWaited s estimateBytes ((ReadFile, sel) # evs) =
     (case tryAcquire s estimateBytes ReadFile of
        Some s' \<Rightarrow> 0
      | None \<Rightarrow>
          (case sel of
             Done cerr \<Rightarrow> 0
           | Tick \<Rightarrow> tickerPeriod + acquireWaited s estimateBytes evs))"

definition releaseMemory :: "Server \<Rightarrow> int64 \<Rightarrow> Server" where
  "releaseMemory s estimateBytes =
     (if memReservedBytes s <s estimateBytes then s\<lparr>memReservedBytes := 0\<rparr>
      else s\<lparr>memReservedBytes := memReservedBytes s - estimateBytes\<rparr>)"

text \<open>
  The calls of concurrent requests interleave. Every change of the counters happens
  inside one critical section, so an interleaving is a sequence of atomic steps: a pass
  of some \<open>acquireMemory\<close> call (which grants or not), a \<open>releaseMemory\<close> call, or the
  initialisation of the budget. \<open>opsFit\<close> holds when every estimate is non-negative and
  no granted increment leaves the range of \<open>int64\<close>.
\<close>

datatype op = Attempt int64 filesys | Release int64 | InitBudget filesys

fun applyOp :: "Server \<Rightarrow> op \<Rightarrow> Server" where
  "applyOp s (Attempt n ReadFile) =
     (case tryAcquire s n ReadFile of Some s' \<Rightarrow> s' | None \<Rightarrow> s)"
| "applyOp s (Release n) = releaseMemory s n"
| "applyOp s (InitBudget ReadFile) = snd (ensureMemBudget s ReadFile)"

definition runOps :: "Server \<Rightarrow> op list \<Rightarrow> Server" where
  "runOps s ops = foldl applyOp s ops"

fun opFits :: "Server \<Rightarrow> op \<Rightarrow> bool" where
  "opFits s (Attempt n ReadFile) =
     (0 \<le>s n \<and>
      (tryAcquire s n ReadFile \<noteq> None \<longrightarrow> sint (memReservedBytes s) + sint n < 2 ^ 63))"
| "opFits s (Release n) = (0 \<le>s n)"
| "opFits s (InitBudget ReadFile) = True"

fun opsFit :: "Server \<Rightarrow> op list \<Rightarrow> bool" where
  "opsFit s [] = True"
| "opsFit s (x # xs) = (opFits s x \<and> opsFit (applyOp s x) xs)"

section \<open>The reclaimer (cleanup.go) and server construction\<close>

definition Minute :: int64 where
  "Minute = 60000000000"

definition Hour :: int64 where
  "Hour = 3600000000000"

definition NewServer :: "Config \<Rightarrow> Server" where
  "NewServer c =
     \<lparr>cfg = (if ArtifactTTL c = 0 then c\<lparr>ArtifactTTL := ArtifactTTLDays c * 24 * Hour\<rparr> else c),
      memBudgetBytes = 0, memReservedBytes = 0\<rparr>"

record FileInfo =
  IsDir :: bool
  ModTime :: int

text \<open>
  Instants are integers (nanoseconds). \<open>time.Since(t)\<close> is \<open>time.Now().Sub(t)\<close>, which
  saturates at the least and the greatest \<open>Duration\<close>.
\<close>

definition Since :: "int \<Rightarrow> int \<Rightarrow> int64" where
  "Since now t =
     (if now - t > 2 ^ 63 - 1 then word_of_int (2 ^ 63 - 1)
      else if now - t < - (2 ^ 63) then word_of_int (- (2 ^ 63))
      else word_of_int (now - t))"

text \<open>
  One entry of a directory listing as a pass of the loop sees it: its name, the result of
  \<open>os.Stat\<close> on it, and the clock when its age is computed. \<open>scanEntries\<close> returns the
  paths handed to \<open>os.RemoveAll\<close>, in order.
\<close>

type_synonym entry = "string \<times> (FileInfo \<times> error option) \<times> int"

fun scanEntries :: "int64 \<Rightarrow> string \<Rightarrow> entry list \<Rightarrow> string list" where
  "scanEntries ttl dir [] = []"
| "scanEntries ttl dir ((name, (fi, err), now) # es) =
     (if err \<noteq> None \<or> \<not> IsDir fi then scanEntries ttl dir es
      else if ttl <s Since now (ModTime fi) then Join [dir, name] # scanEntries ttl dir es
      else scanEntries ttl dir es)"

definition cleanupPass :: "int64 \<Rightarrow> string \<Rightarrow> entry list \<times> error option \<Rightarrow> string list" where
  "cleanupPass ttl dir rd =
     (case rd of
        (entries, Some err) \<Rightarrow> []
      | (entries, None) \<Rightarrow> scanEntries ttl dir entries)"

definition cleanupInterval :: "Server \<Rightarrow> int64" where
  "cleanupInterval s =
     (let interval = CleanupIntervalMins (cfg s) * Minute
      in if interval \<le>s 0 then 30 * Minute else interval)"

text \<open>
  \<open>StartCleanupLoop\<close> fixes the TTL and starts the loop. The loop never ends; what is
  modelled is its first passes, one per element of \<open>passes\<close> (the result of
  \<open>os.ReadDir\<close> for that pass). The result is the server with the derived TTL and, for
  every pass, the paths removed by it.
\<close>

definition StartCleanupLoop ::
  "Server \<Rightarrow> (entry list \<times> error option) list \<Rightarrow> Server \<times> string list list" where
  "StartCleanupLoop s passes =
     (let dir = Join [BaseDir (cfg s), ArtifactsDir (cfg s)];
          s' = (if ArtifactTTL (cfg s) \<le>s 0
                then s\<lparr>cfg := (cfg s)\<lparr>ArtifactTTL := ArtifactTTLDays (cfg s) * 24 * Hour\<rparr>\<rparr>
                else s);
          ttl = ArtifactTTL (cfg s')
      in (s', map (cleanupPass ttl dir) passes))"

section \<open>The request handler\<close>

text \<open>
  A request is its method and the result of decoding its body as JSON (\<open>None\<close> when the
  decoder fails; a key that is absent leaves the zero value, so an absent \<open>type\<close> is
  the empty string). Everything else the handler asks of the operating system is an
  oracle in \<open>Env\<close>: the error of \<open>ensureDirs\<close>, the cgroup files at initialisation, the
  observations of \<open>acquireMemory\<close>, the job id, and the results of \<open>os.MkdirAll\<close>,
  \<open>os.WriteFile\<close> and of running the compiler. A response is its status code and its
  body: the message of \<open>http.Error\<close>, or the encoded \<open>CompileResponse\<close>.
  \<open>strings.ToLower\<close> is modelled on bytes: the ASCII capitals are mapped, every other
  byte is kept.
\<close>

record CompileRequest =
  Code :: string
  Type :: string
  Args :: "string list"

record CompileResponse =
  OK :: bool
  ID :: string
  JS :: string
  WASM :: string
  Error :: string

datatype body = Text string | Json CompileResponse

type_synonym response = "nat \<times> body"

record Request =
  Method :: string
  Body :: "CompileRequest option"

record Cmd =
  Path :: string
  CmdArgs :: "string list"
  Dir :: string

record Env =
  ensureDirs :: "error option"
  cgroupFiles :: filesys
  waits :: "(filesys \<times> select) list"
  randomID :: string
  MkdirAll :: "string \<Rightarrow> error option"
  WriteFile :: "string \<Rightarrow> string \<Rightarrow> error option"
  CombinedOutput :: "Cmd \<Rightarrow> string \<times> error option"

definition toLowerByte :: "char \<Rightarrow> char" where
  "toLowerByte c =
     (if 65 \<le> (of_char c :: nat) \<and> (of_char c :: nat) \<le> 90 then char_of (of_char c + 32 :: nat) else c)"

definition ToLower :: "string \<Rightarrow> string" where
  "ToLower s = map toLowerByte s"

definition typeMessage :: string where
  "typeMessage =
     ''type must be '' @ [CHR 0x27] @ ''c'' @ [CHR 0x27] @ '' or '' @ [CHR 0x27] @ ''cpp'' @ [CHR 0x27]"

definition httpError :: "string \<Rightarrow> nat \<Rightarrow> response" where
  "httpError msg code = (code, Text msg)"

definition runJob :: "Server \<Rightarrow> Env \<Rightarrow> CompileRequest \<Rightarrow> string \<Rightarrow> response" where
  "runJob s env req lang =
     (let id = randomID env;
          jobDir = Join [BaseDir (cfg s), JobsDir (cfg s), id];
          artDir = Join [BaseDir (cfg s), ArtifactsDir (cfg s), id]
      in case MkdirAll env jobDir of
           Some err \<Rightarrow> httpError err 500
         | None \<Rightarrow>
        (case MkdirAll env artDir of
           Some err \<Rightarrow> httpError err 500
         | None \<Rightarrow>
        (let srcName = (if lang \<noteq> ''c'' then ''main.cpp'' else ''main.c'');
             srcPath = Join [jobDir, srcName]
         in case WriteFile env srcPath (Code req) of
              Some err \<Rightarrow> httpError err 500
            | None \<Rightarrow>
           (let args = MergeAndFilterArgs s (Args req) @ [''-o'', ''app.js''];
                compiler = (if lang \<noteq> ''c'' then ''em++'' else ''emcc'');
                cmd = (if NsJailEnabled (cfg s)
                       then \<lparr>Path = NsJailPath (cfg s),
                             CmdArgs = [''--quiet'', ''--iface_no_lo'', ''--cwd'', ''/work'',
                                        ''--bindmount'', jobDir @ '':/work'',
                                        ''--rlimit_fsize'', ''268435456'',
                                        ''--'', compiler, srcName] @ args,
                             Dir = ''''\<rparr>
                       else \<lparr>Path = compiler, CmdArgs = [srcName] @ args, Dir = jobDir\<rparr>)
            in case CombinedOutput env cmd of
                 (out, Some err) \<Rightarrow>
                   (400, Json \<lparr>OK = False, ID = id, JS = '''', WASM = '''', Error = out\<rparr>)
               | (out, None) \<Rightarrow>
                   (let baseURL = ''/'' @ TrimPrefix (ArtifactsDir (cfg s)) ''/''
                    in (200, Json \<lparr>OK = True, ID = id,
                                    JS = baseURL @ ''/'' @ id @ ''/app.js'',
                                    WASM = baseURL @ ''/'' @ id @ ''/app.wasm'',
                                    Error = ''''\<rparr>))))))"

text \<open>
  The handler. \<open>runJob\<close> is the part after the resource gate: workspace, argument list,
  compiler run, response. The deferred \<open>releaseMemory\<close> runs when the handler returns, so
  on every path through \<open>runJob\<close> the final server is \<open>releaseMemory s2 est\<close>. The
  handler's result is \<open>None\<close> when \<open>acquireMemory\<close> has not returned.
\<close>

definition jobEstimate :: "Server \<Rightarrow> int64" where
  "jobEstimate s =
     (let est = JobMemoryEstimateMB (cfg s) * 1024 * 1024
      in if est \<le>s 0 then 256 * 1024 * 1024 else est)"

definition HandleCompile :: "Server \<Rightarrow> Request \<Rightarrow> Env \<Rightarrow> (response \<times> Server) option" where
  "HandleCompile s r env =
     (if Method r \<noteq> ''POST'' then Some (httpError ''method not allowed'' 405, s)
      else case ensureDirs env of
        Some err \<Rightarrow> Some (httpError err 500, s)
      | None \<Rightarrow>
     (case Body r of
        None \<Rightarrow> Some (httpError ''invalid JSON'' 400, s)
      | Some req \<Rightarrow>
     (if TrimSpace (Code req) = '''' then Some (httpError ''code is required'' 400, s)
      else
     (let lang0 = ToLower (TrimSpace (Type req)) in
      if lang0 \<noteq> ''c'' \<and> lang0 \<noteq> ''cpp'' \<and> lang0 \<noteq> ''cc'' \<and> lang0 \<noteq> ''c++'' \<and> lang0 \<noteq> ''''
      then Some (httpError typeMessage 400, s)
      else
     (let lang = (if lang0 = '''' then ''c'' else lang0) in
      if EnableResourceGating (cfg s) then
        (case ensureMemBudget s (cgroupFiles env) of
           (Some err, s1) \<Rightarrow>
             Some (httpError (''resource gating init failed: '' @ err) 500, s1)
         | (None, s1) \<Rightarrow>
             (let est = jobEstimate s1 in
              case acquireMemory s1 est (waits env) of
                None \<Rightarrow> None
              | Some (Some err, s2) \<Rightarrow> Some (httpError ''resource wait canceled'' 408, s2)
              | Some (None, s2) \<Rightarrow> Some (runJob s2 env req lang, releaseMemory s2 est)))
      else Some (runJob s env req lang, s))))))"

section \<open>Concrete servers and environments\<close>

text \<open>
  The inputs at which the theorems below are instantiated: the server built from the
  default configuration, one with a budget of 1 GiB, cgroup directories with given
  contents of \<open>memory.max\<close> and \<open>memory.current\<close>, and an environment in which every
  call to the operating system succeeds.
\<close>

definition srv0 :: Server where
  "srv0 = \<lparr>cfg = DefaultConfig, memBudgetBytes = 0, memReservedBytes = 0\<rparr>"

definition srvGiB :: Server where
  "srvGiB = srv0\<lparr>memBudgetBytes := 1073741824\<rparr>"

definition noFiles :: filesys where
  "noFiles = (\<lambda>p. ('''', Some ''no such file or directory''))"

definition cgroupWith :: "string \<Rightarrow> string \<Rightarrow> filesys" where
  "cgroupWith mx cur =
     (\<lambda>p. if p = ''cgroup/memory.max'' then (mx, None)
          else if p = ''cgroup/memory.current'' then (cur, None)
          else ('''', Some ''no such file or directory''))"

definition env0 :: Env where
  "env0 = \<lparr>ensureDirs = None, cgroupFiles = noFiles, waits = [],
            randomID = ''0a1b2c3d'', MkdirAll = (\<lambda>p. None), WriteFile = (\<lambda>p d. None),
            CombinedOutput = (\<lambda>c. ('''', None))\<rparr>"

definition srvGate :: Server where
  "srvGate = \<lparr>cfg = DefaultConfig\<lparr>EnableResourceGating := True\<rparr>,
              memBudgetBytes = 0, memReservedBytes = 0\<rparr>"

text \<open>
  A server whose operator configured an estimate of \<open>2^42\<close> MB per job, which is \<open>2^62\<close>
  bytes, before any request (\<open>srvHuge0\<close>) and while one request holds its reservation
  (\<open>srvHuge\<close>).
\<close>

definition srvHuge0 :: Server where
  "srvHuge0 =
     \<lparr>cfg = DefaultConfig\<lparr>EnableResourceGating := True, JobMemoryEstimateMB := 4398046511104\<rparr>,
      memBudgetBytes = 0, memReservedBytes = 0\<rparr>"

definition srvHuge :: Server where
  "srvHuge = reserve srvHuge0 (jobEstimate srvHuge0)"

definition envMax :: Env where
  "envMax = env0\<lparr>cgroupFiles := cgroupWith (''max'' @ [CHR 0x0A]) ''0''\<rparr>"

definition envBusy :: Env where
  "envBusy = env0\<lparr>
     cgroupFiles := cgroupWith ''1073741824'' ''943718400'',
     waits := [(cgroupWith ''1073741824'' ''943718400'', Tick),
               (cgroupWith ''1073741824'' ''104857600'', Tick)],
     CombinedOutput := (\<lambda>c. (''main.c:1:1: error: expected identifier'', Some ''exit status 1''))\<rparr>"

definition reqC :: Request where
  "reqC = \<lparr>Method = ''POST'',
           Body = Some \<lparr>Code = ''int main(){return 0;}'', Type = ''c'', Args = []\<rparr>\<rparr>"

definition reqType :: "string \<Rightarrow> Request" where
  "reqType t = \<lparr>Method = ''POST'', Body = Some \<lparr>Code = ''x'', Type = t, Args = []\<rparr>\<rparr>"

definition okResponse :: response where
  "okResponse =
     (200, Json \<lparr>OK = True, ID = ''0a1b2c3d'', JS = ''/artifacts/0a1b2c3d/app.js'',
                 WASM = ''/artifacts/0a1b2c3d/app.wasm'', Error = ''''\<rparr>)"

definition failResponse :: response where
  "failResponse =
     (400, Json \<lparr>OK = False, ID = ''0a1b2c3d'', JS = '''', WASM = '''',
                 Error = ''main.c:1:1: error: expected identifier''\<rparr>)"

definition opsDemo :: "op list" where
  "opsDemo =
     [Attempt 268435456 noFiles,
      InitBudget (cgroupWith ''1073741824'' ''0''),
      Attempt 268435456 (cgroupWith ''1073741824'' ''104857600''),
      Attempt 268435456 (cgroupWith ''1073741824'' ''943718400''),
      Release 268435456, Release 268435456, Release 268435456]"

definition cfgNoTTL :: Config where
  "cfgNoTTL = DefaultConfig\<lparr>ArtifactTTLDays := 0\<rparr>"

section \<open>The argument filter: what the output can contain\<close>










lemma filterLoopT_erase: "map fst (filterLoopT user result) = filterLoop user (map fst result)"
  by (induction user result rule: filterLoopT.induct) (simp_all add: Let_def)

lemma safeArgPath_iff: "safeArgPath p \<longleftrightarrow> \<not> HasPrefix p ''/'' \<and> \<not> Contains p ''..''"
  by (simp add: safeArgPath_def)

lemma pairValuesSafe_single:
  "pairValuesSafe ts \<Longrightarrow> k \<noteq> PairValue \<Longrightarrow> pairValuesSafe (ts @ [(a, k)])"
  by (auto simp: pairValuesSafe_def nth_append less_Suc_eq)

lemma pairValuesSafe_pair:
  assumes ts: "pairValuesSafe ts" and a: "isPairFlag a" and n: "safeArgPath n"
  shows "pairValuesSafe (ts @ [(a, PairFlag), (n, PairValue)])"
  unfolding pairValuesSafe_def
proof (intro allI impI)
  let ?out = "ts @ [(a, PairFlag), (n, PairValue)]"
  fix j assume j: "j < length ?out" and v: "snd (?out ! j) = PairValue"
  consider "j < length ts" | "j = length ts" | "j = Suc (length ts)"
    using j by (auto simp: less_Suc_eq)
  then show "\<not> HasPrefix (fst (?out ! j)) ''/'' \<and> \<not> Contains (fst (?out ! j)) ''..'' \<and>
        0 < j \<and> snd (?out ! (j - 1)) = PairFlag \<and> isPairFlag (fst (?out ! (j - 1)))"
  proof cases
    case 1
    with v ts have "\<not> HasPrefix (fst (ts ! j)) ''/'' \<and> \<not> Contains (fst (ts ! j)) ''..'' \<and>
        0 < j \<and> snd (ts ! (j - 1)) = PairFlag \<and> isPairFlag (fst (ts ! (j - 1)))"
      by (simp add: pairValuesSafe_def nth_append)
    with 1 show ?thesis by (auto simp: nth_append)
  next
    case 2
    with v show ?thesis by (simp add: nth_append)
  next
    case 3
    with a n show ?thesis by (simp add: nth_append safeArgPath_iff)
  qed
qed

lemma filterLoopT_safe:
  "pairValuesSafe result \<Longrightarrow> pairValuesSafe (filterLoopT user result)"
proof (induction user result rule: filterLoopT.induct)
  case (1 result)
  then show ?case by simp
next
  case (2 u result)
  then show ?case by (simp add: Let_def pairValuesSafe_single)
next
  case (3 u n rest result)
  then show ?case by (simp add: Let_def pairValuesSafe_single pairValuesSafe_pair)
qed

lemma pairValuesSafe_defaults: "pairValuesSafe (map (\<lambda>d. (d, FromDefaults)) ds)"
  by (simp add: pairValuesSafe_def)

text \<open>
  C3. \<open>MergeAndFilterArgsT\<close> is the filter with the origin of every token recorded, and
  its tokens are those of \<open>MergeAndFilterArgs\<close>. For every user argument vector, a token
  accepted as the value of a pair does not start with \<open>/\<close> and does not contain \<open>..\<close>,
  and it comes immediately after the token accepted as the flag of that pair, one of
  \<open>--preload-file\<close>, \<open>--embed-file\<close> and \<open>--source-map-base\<close>. When the value of a candidate
  pair is unsafe, the loop goes on behind the pair with the result unchanged: flag and
  value are both dropped.
\<close>

theorem pair_values_are_safe:
  "map fst (MergeAndFilterArgsT s user) = MergeAndFilterArgs s user \<and>
   (\<forall>j < length (MergeAndFilterArgsT s user).
      snd (MergeAndFilterArgsT s user ! j) = PairValue \<longrightarrow>
        \<not> HasPrefix (fst (MergeAndFilterArgsT s user ! j)) ''/'' \<and>
        \<not> Contains (fst (MergeAndFilterArgsT s user ! j)) ''..'' \<and>
        0 < j \<and>
        snd (MergeAndFilterArgsT s user ! (j - 1)) = PairFlag \<and>
        isPairFlag (fst (MergeAndFilterArgsT s user ! (j - 1)))) \<and>
   (isPairFlag (TrimSpace u) \<and> \<not> safeArgPath (TrimSpace n) \<longrightarrow>
      filterLoop (u # n # rest) result = filterLoop rest result)"
proof -
  have "pairValuesSafe (MergeAndFilterArgsT s user)"
    by (simp add: MergeAndFilterArgsT_def filterLoopT_safe pairValuesSafe_defaults)
  then show ?thesis
    by (simp add: pairValuesSafe_def MergeAndFilterArgsT_def MergeAndFilterArgs_def
        filterLoopT_erase Let_def isPairFlag_def comp_def)
qed

text \<open>
  The theorem at the user arguments \<open>--preload-file assets --embed-file /etc/passwd -O2\<close>
  (the second with a leading blank): the first pair is accepted and its value is the
  sixth token of the output; the second pair is unsafe and is dropped.
\<close>

theorem pair_values_are_safe_witness:
  "MergeAndFilterArgsT srv0
      [''--preload-file'', '' assets'', ''--embed-file'', ''/etc/passwd'', ''-O2''] ! 5
     = (''assets'', PairValue) \<and>
   \<not> HasPrefix ''assets'' ''/'' \<and> \<not> Contains ''assets'' ''..'' \<and>
   MergeAndFilterArgsT srv0
      [''--preload-file'', '' assets'', ''--embed-file'', ''/etc/passwd'', ''-O2''] ! (5 - 1)
     = (''--preload-file'', PairFlag) \<and>
   isPairFlag (TrimSpace ''--embed-file'') \<and> \<not> safeArgPath (TrimSpace ''/etc/passwd'') \<and>
   filterLoop [''--embed-file'', ''/etc/passwd'', ''-O2''] [] = filterLoop [''-O2''] []"
proof -
  let ?user = "[''--preload-file'', '' assets'', ''--embed-file'', ''/etc/passwd'', ''-O2'']"
  have e: "MergeAndFilterArgsT srv0 ?user ! 5 = (''assets'', PairValue)"
    by code_simp
  have p: "MergeAndFilterArgsT srv0 ?user ! (5 - 1) = (''--preload-file'', PairFlag)"
    by code_simp
  have f: "isPairFlag (TrimSpace ''--embed-file'') \<and> \<not> safeArgPath (TrimSpace ''/etc/passwd'')"
    by code_simp
  have l: "(5::nat) < length (MergeAndFilterArgsT srv0 ?user)"
    by code_simp
  from pair_values_are_safe [of srv0 ?user "''--embed-file''" "''/etc/passwd''" "[''-O2'']" "[]"]
    e p f l
  show ?thesis
    by (auto simp del: filterLoop.simps)
qed

text \<open>
  C10. The token \<open>-sENVIRONMENT=node,worker\<close> selects the node environment. It is not
  the blocked flag \<open>-sENVIRONMENT=node\<close> and does not start with \<open>-sENVIRONMENT=node=\<close>, so
  no block rule fires; the allow prefix \<open>-sENVIRONMENT=\<close> accepts it, and the filter
  appends it to the default arguments.
\<close>

theorem environment_node_passes:
  "HasPrefix ''-sENVIRONMENT=node,worker'' ''-sENVIRONMENT=node'' \<and>
   ''-sENVIRONMENT=node,worker'' \<noteq> ''-sENVIRONMENT=node'' \<and>
   \<not> HasPrefix ''-sENVIRONMENT=node,worker'' ''-sENVIRONMENT=node='' \<and>
   \<not> isBlockedArg ''-sENVIRONMENT=node,worker'' blocked \<and>
   isAllowedArg ''-sENVIRONMENT=node,worker'' allowedPrefix \<and>
   MergeAndFilterArgs srv0 [''-sENVIRONMENT=node,worker''] =
     DefaultArgs DefaultConfig @ [''-sENVIRONMENT=node,worker'']"
  by code_simp

section \<open>Admission control: grants, errors and the reserved counter\<close>

lemma reserve_simps:
  "memReservedBytes (reserve s n) = memReservedBytes s + n"
  "memBudgetBytes (reserve s n) = memBudgetBytes s"
  "cfg (reserve s n) = cfg s"
  by (simp_all add: reserve_def)

lemma tryAcquire_Some: "tryAcquire s n fs = Some s' \<Longrightarrow> s' = reserve s n"
  by (auto simp: tryAcquire_def Let_def split: if_splits prod.splits option.splits)

lemma tryAcquire_unlimited: "memBudgetBytes s = 0 \<Longrightarrow> tryAcquire s n fs = Some (reserve s n)"
  by (simp add: tryAcquire_def)

lemma acquireMemory_pass:
  "acquireMemory s n ((fs, sel) # evs) =
     (case tryAcquire s n fs of
        Some s' \<Rightarrow> Some (None, s')
      | None \<Rightarrow> (case sel of Done err \<Rightarrow> Some (Some err, s) | Tick \<Rightarrow> acquireMemory s n evs))"
  by (simp add: acquireMemory.simps(2) tryAcquire_def Let_def split: prod.splits option.splits)

lemma acquireMemory_unlimited:
  "memBudgetBytes s = 0 \<Longrightarrow> acquireMemory s n evs = Some (None, reserve s n)"
  by (cases evs) (auto simp: acquireMemory_pass tryAcquire_unlimited)

lemma acquireMemory_granted: "acquireMemory s n evs = Some (None, s') \<Longrightarrow> s' = reserve s n"
  by (induction evs)
    (auto simp: acquireMemory_pass split: if_splits option.splits select.splits dest: tryAcquire_Some)

lemma sint_sum3:
  fixes a b c :: int64
  assumes "- (2 ^ 63) \<le> sint a + sint b + sint c" "sint a + sint b + sint c < 2 ^ 63"
  shows "sint (a + b + c) = sint a + sint b + sint c"
proof -
  have w: "sint (word_of_int k :: int64) = signed_take_bit 63 k" for k
    by (simp add: sint_sbintrunc')
  have "a + b + c = word_of_int (sint a + sint b + sint c)"
    by simp
  then have "sint (a + b + c) = signed_take_bit 63 (sint a + sint b + sint c)"
    by (simp only: w)
  also have "\<dots> = sint a + sint b + sint c"
    using assms by (simp add: signed_take_bit_int_eq_self)
  finally show ?thesis .
qed

text \<open>
  C4, as amended. With budget 0, \<open>acquireMemory\<close> increments \<open>reserved\<close> by \<open>n\<close> and
  returns success at once, whatever the environment. With a budget other than 0, a pass
  whose probe reads \<open>cur\<close> grants the reservation (incrementing \<open>reserved\<close> by \<open>n\<close>) if and
  only if \<open>cur + reserved + n \<le> budget\<close> holds for the sum as the source computes it,
  in \<open>int64\<close> with wrap-around; this is the inequality on the integers whenever the sum of
  the three numbers fits 64 bits. A pass whose probe cannot be read never grants. A pass
  that does not grant leaves the server as it is and waits: when the context is done
  the call returns the context's error, and when the ticker fires, one period of 200 ms
  later, the call goes on with the next pass, which reads the probe afresh.
\<close>

theorem acquire_attempt:
  "(memBudgetBytes s = 0 \<longrightarrow>
      acquireMemory s n evs = Some (None, reserve s n) \<and>
      memReservedBytes (reserve s n) = memReservedBytes s + n \<and>
      acquireWaited s n evs = 0) \<and>
   (memBudgetBytes s \<noteq> 0 \<and> readCgroupMemoryCurrent (CgroupV2Root (cfg s)) fs = (cur, None) \<longrightarrow>
      (tryAcquire s n fs = Some (reserve s n)
         \<longleftrightarrow> cur + memReservedBytes s + n \<le>s memBudgetBytes s) \<and>
      (tryAcquire s n fs = None
         \<longleftrightarrow> \<not> cur + memReservedBytes s + n \<le>s memBudgetBytes s) \<and>
      acquireMemory s n ((fs, sel) # evs) =
        (if cur + memReservedBytes s + n \<le>s memBudgetBytes s then Some (None, reserve s n)
         else case sel of Done err \<Rightarrow> Some (Some err, s) | Tick \<Rightarrow> acquireMemory s n evs) \<and>
      (- (2 ^ 63) \<le> sint cur + sint (memReservedBytes s) + sint n \<and>
       sint cur + sint (memReservedBytes s) + sint n < 2 ^ 63 \<longrightarrow>
         (cur + memReservedBytes s + n \<le>s memBudgetBytes s
            \<longleftrightarrow> sint cur + sint (memReservedBytes s) + sint n \<le> sint (memBudgetBytes s)))) \<and>
   (memBudgetBytes s \<noteq> 0 \<and>
    readCgroupMemoryCurrent (CgroupV2Root (cfg s)) fs = (cur, Some perr) \<longrightarrow>
      tryAcquire s n fs = None \<and>
      acquireMemory s n ((fs, sel) # evs) =
        (case sel of Done err \<Rightarrow> Some (Some err, s) | Tick \<Rightarrow> acquireMemory s n evs)) \<and>
   (tryAcquire s n fs = None \<longrightarrow>
      acquireWaited s n ((fs, Tick) # evs) = tickerPeriod + acquireWaited s n evs \<and>
      acquireWaited s n ((fs, Done err) # evs) = 0 \<and>
      sint tickerPeriod = 200 * 1000000)"
proof -
  have w0: "memBudgetBytes s = 0 \<Longrightarrow> acquireWaited s n evs = 0"
    by (cases evs) (auto simp: tryAcquire_unlimited)
  have tp: "sint tickerPeriod = 200 * 1000000"
    by (simp add: tickerPeriod_def Millisecond_def)
  show ?thesis
    by (auto simp: acquireMemory_unlimited acquireMemory_pass reserve_simps tryAcquire_def Let_def
        word_sle_eq sint_sum3 w0 tp)
qed

text \<open>
  The theorem at the default server (budget 0), and at a server with a budget of 1 GiB
  and an estimate of 256 MiB: with \<open>memory.current\<close> at 900 MiB the pass does not grant,
  and with no cgroup files the pass does not grant either; in both cases the call goes
  on, after the tick, with the next observation.
\<close>

theorem acquire_attempt_witness:
  "memBudgetBytes srv0 = 0 \<and>
   acquireMemory srv0 268435456 [] = Some (None, reserve srv0 268435456) \<and>
   memBudgetBytes srvGiB \<noteq> 0 \<and>
   readCgroupMemoryCurrent (CgroupV2Root (cfg srvGiB)) (cgroupWith ''max'' (''943718400'' @ [CHR 0x0A]))
     = (943718400, None) \<and>
   tryAcquire srvGiB 268435456 (cgroupWith ''max'' (''943718400'' @ [CHR 0x0A])) = None \<and>
   acquireMemory srvGiB 268435456
     [(cgroupWith ''max'' (''943718400'' @ [CHR 0x0A]), Tick), (cgroupWith ''max'' ''104857600'', Tick)]
     = acquireMemory srvGiB 268435456 [(cgroupWith ''max'' ''104857600'', Tick)] \<and>
   readCgroupMemoryCurrent (CgroupV2Root (cfg srvGiB)) noFiles = (0, Some ''no such file or directory'') \<and>
   tryAcquire srvGiB 268435456 noFiles = None \<and>
   acquireMemory srvGiB 268435456 [(noFiles, Tick), (cgroupWith ''max'' ''104857600'', Tick)]
     = acquireMemory srvGiB 268435456 [(cgroupWith ''max'' ''104857600'', Tick)] \<and>
   acquireWaited srvGiB 268435456 [(noFiles, Tick), (cgroupWith ''max'' ''104857600'', Tick)]
     = tickerPeriod + acquireWaited srvGiB 268435456 [(cgroupWith ''max'' ''104857600'', Tick)]"
proof -
  have b0: "memBudgetBytes srv0 = 0" by (simp add: srv0_def)
  have b1: "memBudgetBytes srvGiB \<noteq> 0" by (simp add: srvGiB_def srv0_def)
  have r: "readCgroupMemoryCurrent (CgroupV2Root (cfg srvGiB))
             (cgroupWith ''max'' (''943718400'' @ [CHR 0x0A])) = (943718400, None)"
    by code_simp
  have q: "readCgroupMemoryCurrent (CgroupV2Root (cfg srvGiB)) noFiles
             = (0, Some ''no such file or directory'')"
    by code_simp
  have t: "\<not> (943718400 + memReservedBytes srvGiB + 268435456 \<le>s memBudgetBytes srvGiB)"
    by (simp add: srvGiB_def srv0_def word_sle_eq)
  from acquire_attempt [where s = srv0 and n = 268435456 and evs = "[]"] b0
  have u: "acquireMemory srv0 268435456 [] = Some (None, reserve srv0 268435456)" by simp
  from acquire_attempt [where s = srvGiB and n = 268435456 and cur = 943718400 and sel = Tick
      and fs = "cgroupWith ''max'' (''943718400'' @ [CHR 0x0A])"
      and evs = "[(cgroupWith ''max'' ''104857600'', Tick)]"] b1 r t
  have v: "tryAcquire srvGiB 268435456 (cgroupWith ''max'' (''943718400'' @ [CHR 0x0A])) = None \<and>
        acquireMemory srvGiB 268435456
          [(cgroupWith ''max'' (''943718400'' @ [CHR 0x0A]), Tick), (cgroupWith ''max'' ''104857600'', Tick)]
          = acquireMemory srvGiB 268435456 [(cgroupWith ''max'' ''104857600'', Tick)]"
    by (simp del: acquireMemory.simps acquireWaited.simps)
  from acquire_attempt [where s = srvGiB and n = 268435456 and cur = 0 and sel = Tick
      and perr = "''no such file or directory''" and fs = noFiles
      and evs = "[(cgroupWith ''max'' ''104857600'', Tick)]"] b1 q
  have p: "tryAcquire srvGiB 268435456 noFiles = None \<and>
        acquireMemory srvGiB 268435456 [(noFiles, Tick), (cgroupWith ''max'' ''104857600'', Tick)]
          = acquireMemory srvGiB 268435456 [(cgroupWith ''max'' ''104857600'', Tick)] \<and>
        acquireWaited srvGiB 268435456 [(noFiles, Tick), (cgroupWith ''max'' ''104857600'', Tick)]
          = tickerPeriod + acquireWaited srvGiB 268435456 [(cgroupWith ''max'' ''104857600'', Tick)]"
    by (simp del: acquireMemory.simps acquireWaited.simps)
  with b0 b1 r q u v show ?thesis by simp
qed

text \<open>
  C4 as stated fails. With a budget of 1 GiB, \<open>reserved = 0\<close>, an estimate of 256 MiB and
  \<open>memory.current\<close> holding 9223372036854775807, the pass grants the reservation although
  the sum of the three numbers exceeds the budget: the \<open>int64\<close> sum wraps around to a
  negative number.
\<close>

theorem acquire_wraps_counterexample:
  "memBudgetBytes srvGiB = 1073741824 \<and> memReservedBytes srvGiB = 0 \<and>
   readCgroupMemoryCurrent (CgroupV2Root (cfg srvGiB)) (cgroupWith ''max'' ''9223372036854775807'')
     = (9223372036854775807, None) \<and>
   tryAcquire srvGiB 268435456 (cgroupWith ''max'' ''9223372036854775807'')
     = Some (reserve srvGiB 268435456) \<and>
   acquireMemory srvGiB 268435456 [(cgroupWith ''max'' ''9223372036854775807'', Tick)]
     = Some (None, reserve srvGiB 268435456) \<and>
   \<not> (sint (9223372036854775807 :: int64) + sint (memReservedBytes srvGiB) + sint (268435456 :: int64)
        \<le> sint (memBudgetBytes srvGiB))"
  by code_simp

lemma acquireMemory_error: "acquireMemory s n evs = Some (Some err, s') \<Longrightarrow> s' = s"
  by (induction evs)
    (auto simp: acquireMemory_pass split: if_splits option.splits select.splits)

text \<open>
  C6. Whenever \<open>acquireMemory\<close> returns an error, the server it leaves behind is the one
  it started from; in particular \<open>reserved\<close> has its value from the start of the call.
  (An error is returned only from a \<open>select\<close> whose \<open>Done\<close> case fires, after a probe
  that failed or a capacity test that failed.)
\<close>

theorem acquire_error_keeps_reserved:
  "acquireMemory s n evs = Some (Some err, s') \<Longrightarrow>
   memReservedBytes s' = memReservedBytes s \<and> s' = s"
  by (auto dest: acquireMemory_error)

text \<open>
  The theorem at a server with a budget of 1 GiB: once with a probe that cannot be read
  and a context cancelled during the second wait, once with \<open>memory.current\<close> at 900 MiB
  (the capacity test fails) and a deadline that expires during the first wait.
\<close>

theorem acquire_error_keeps_reserved_witness:
  "acquireMemory srvGiB 268435456 [(noFiles, Tick), (noFiles, Done ''context canceled'')]
     = Some (Some ''context canceled'', srvGiB) \<and>
   acquireMemory srvGiB 268435456 [(cgroupWith ''max'' ''943718400'', Done ''context deadline exceeded'')]
     = Some (Some ''context deadline exceeded'', srvGiB) \<and>
   memReservedBytes srvGiB = 0"
proof -
  have a: "acquireMemory srvGiB 268435456 [(noFiles, Tick), (noFiles, Done ''context canceled'')]
     = Some (Some ''context canceled'', srvGiB)"
    by code_simp
  have b: "acquireMemory srvGiB 268435456
       [(cgroupWith ''max'' ''943718400'', Done ''context deadline exceeded'')]
     = Some (Some ''context deadline exceeded'', srvGiB)"
    by code_simp
  have c: "memReservedBytes srvGiB = 0" by (simp add: srvGiB_def srv0_def)
  from acquire_error_keeps_reserved [OF a] acquire_error_keeps_reserved [OF b] a b c
  show ?thesis by simp
qed

subsection \<open>Arithmetic of the reserved counter\<close>

lemma sint_of_int64: "sint (word_of_int k :: int64) = signed_take_bit 63 k"
  by (simp add: sint_sbintrunc')

lemma sint_add_fits:
  fixes a b :: int64
  assumes "- (2 ^ 63) \<le> sint a + sint b" "sint a + sint b < 2 ^ 63"
  shows "sint (a + b) = sint a + sint b"
proof -
  have "a + b = word_of_int (sint a + sint b)" by simp
  then have "sint (a + b) = signed_take_bit 63 (sint a + sint b)"
    by (simp only: sint_of_int64)
  with assms show ?thesis by (simp add: signed_take_bit_int_eq_self)
qed

lemma sint_diff_fits:
  fixes a b :: int64
  assumes "- (2 ^ 63) \<le> sint a - sint b" "sint a - sint b < 2 ^ 63"
  shows "sint (a - b) = sint a - sint b"
proof -
  have "a - b = word_of_int (sint a - sint b)" by simp
  then have "sint (a - b) = signed_take_bit 63 (sint a - sint b)"
    by (simp only: sint_of_int64)
  with assms show ?thesis by (simp add: signed_take_bit_int_eq_self)
qed

lemma sint_bounds64: "- (2 ^ 63) \<le> sint (a :: int64) \<and> sint a < 2 ^ 63"
  using sint_ge [of a] sint_lt [of a] by simp

lemma release_value:
  assumes "0 \<le>s n" "0 \<le>s memReservedBytes s"
  shows "sint (memReservedBytes (releaseMemory s n)) = max 0 (sint (memReservedBytes s) - sint n)"
proof (cases "memReservedBytes s <s n")
  case True
  then show ?thesis by (simp add: releaseMemory_def word_sless_alt)
next
  case False
  with assms have le: "sint n \<le> sint (memReservedBytes s)" "0 \<le> sint n"
    by (simp_all add: word_sless_alt word_sle_eq)
  have "sint (memReservedBytes s - n) = sint (memReservedBytes s) - sint n"
    using le sint_bounds64 [of "memReservedBytes s"] by (intro sint_diff_fits) auto
  with False le show ?thesis by (simp add: releaseMemory_def)
qed

lemma release_nonneg:
  assumes "0 \<le>s n"
  shows "0 \<le>s memReservedBytes (releaseMemory s n)"
proof (cases "memReservedBytes s <s n")
  case True
  then show ?thesis by (simp add: releaseMemory_def)
next
  case False
  with assms have le: "sint n \<le> sint (memReservedBytes s)" "0 \<le> sint n"
    by (simp_all add: word_sless_alt word_sle_eq)
  have "sint (memReservedBytes s - n) = sint (memReservedBytes s) - sint n"
    using le sint_bounds64 [of "memReservedBytes s"] by (intro sint_diff_fits) auto
  with False le show ?thesis by (simp add: releaseMemory_def word_sle_eq)
qed

lemma reserve_nonneg:
  assumes "0 \<le>s memReservedBytes s" "0 \<le>s n" "sint (memReservedBytes s) + sint n < 2 ^ 63"
  shows "0 \<le>s memReservedBytes (reserve s n)"
proof -
  from assms have nn: "0 \<le> sint (memReservedBytes s)" "0 \<le> sint n"
    by (simp_all add: word_sle_eq)
  then have "sint (memReservedBytes s + n) = sint (memReservedBytes s) + sint n"
    using assms(3) by (intro sint_add_fits) auto
  with nn show ?thesis by (simp add: reserve_simps word_sle_eq)
qed

lemma release_reserve:
  assumes "0 \<le>s memReservedBytes s" "sint (memReservedBytes s) + sint n < 2 ^ 63" "0 \<le>s n"
  shows "memReservedBytes (releaseMemory (reserve s n) n) = memReservedBytes s"
proof -
  from assms have nn: "0 \<le> sint (memReservedBytes s)" "0 \<le> sint n"
    by (simp_all add: word_sle_eq)
  then have "sint (memReservedBytes s + n) = sint (memReservedBytes s) + sint n"
    using assms(2) by (intro sint_add_fits) auto
  with nn have "\<not> memReservedBytes (reserve s n) <s n"
    by (simp add: reserve_simps word_sless_alt)
  then show ?thesis by (simp add: releaseMemory_def reserve_simps)
qed

lemma ensureMemBudget_keeps:
  "memReservedBytes (snd (ensureMemBudget s fs)) = memReservedBytes s"
  "cfg (snd (ensureMemBudget s fs)) = cfg s"
  by (auto simp: ensureMemBudget_def split: prod.splits option.splits)

lemma applyOp_nonneg:
  "0 \<le>s memReservedBytes s \<Longrightarrow> opFits s x \<Longrightarrow> 0 \<le>s memReservedBytes (applyOp s x)"
proof (cases x)
  case (Attempt n fs)
  assume a: "0 \<le>s memReservedBytes s" "opFits s x"
  show ?thesis
  proof (cases "tryAcquire s n fs")
    case None
    with Attempt a show ?thesis by simp
  next
    case (Some s')
    then have "s' = reserve s n" by (rule tryAcquire_Some)
    with Some Attempt a show ?thesis by (simp add: reserve_nonneg)
  qed
next
  case (Release n)
  assume "0 \<le>s memReservedBytes s" "opFits s x"
  with Release show ?thesis by (simp add: release_nonneg)
next
  case (InitBudget fs)
  assume "0 \<le>s memReservedBytes s" "opFits s x"
  with InitBudget show ?thesis by (simp add: ensureMemBudget_keeps)
qed

lemma runOps_nonneg:
  "0 \<le>s memReservedBytes s \<Longrightarrow> opsFit s ops \<Longrightarrow> 0 \<le>s memReservedBytes (runOps s ops)"
  unfolding runOps_def
  by (induction ops arbitrary: s) (auto simp: applyOp_nonneg)

text \<open>
  C7, as amended. \<open>releaseMemory\<close> with a non-negative estimate never leaves \<open>reserved\<close>
  negative, and on a non-negative \<open>reserved\<close> it subtracts the estimate and clamps at 0.
  Starting from \<open>reserved = 0\<close>, \<open>reserved \<ge> 0\<close> holds after every interleaving of
  acquire passes, releases and budget initialisations whose estimates are non-negative,
  provided no granted increment overflows \<open>int64\<close> (\<open>opsFit\<close>: at every grant,
  \<open>reserved + n < 2^63\<close>).
\<close>

theorem release_clamps_reserved_nonneg:
  "(0 \<le>s n \<longrightarrow>
      0 \<le>s memReservedBytes (releaseMemory s n) \<and>
      (0 \<le>s memReservedBytes s \<longrightarrow>
         sint (memReservedBytes (releaseMemory s n)) = max 0 (sint (memReservedBytes s) - sint n))) \<and>
   (memReservedBytes s = 0 \<and> opsFit s ops \<longrightarrow> 0 \<le>s memReservedBytes (runOps s ops))"
  using runOps_nonneg [of s ops] by (auto simp: release_nonneg release_value)

text \<open>
  The theorem at estimates of 256 MiB: a release on an empty counter stays at 0, a
  release after two reservations leaves one, and the interleaving \<open>opsDemo\<close> (two grants,
  one refusal, three releases) goes through 512 MiB and ends at 0.
\<close>

theorem release_clamps_reserved_nonneg_witness:
  "0 \<le>s (268435456 :: int64) \<and> 0 \<le>s memReservedBytes srvGiB \<and>
   memReservedBytes (releaseMemory srvGiB 268435456) = 0 \<and>
   memReservedBytes (releaseMemory (reserve (reserve srvGiB 268435456) 268435456) 268435456) = 268435456 \<and>
   memReservedBytes srv0 = 0 \<and> opsFit srv0 opsDemo \<and>
   memReservedBytes (runOps srv0 (take 3 opsDemo)) = 536870912 \<and>
   memReservedBytes (runOps srv0 opsDemo) = 0 \<and>
   0 \<le>s memReservedBytes (runOps srv0 opsDemo)"
proof -
  have n: "0 \<le>s (268435456 :: int64)" by code_simp
  have r: "0 \<le>s memReservedBytes srvGiB" by code_simp
  have v1: "memReservedBytes (releaseMemory srvGiB 268435456) = 0" by code_simp
  have v2: "memReservedBytes
              (releaseMemory (reserve (reserve srvGiB 268435456) 268435456) 268435456) = 268435456"
    by code_simp
  have z: "memReservedBytes srv0 = 0" by (simp add: srv0_def)
  have f: "opsFit srv0 opsDemo" by code_simp
  have m: "memReservedBytes (runOps srv0 (take 3 opsDemo)) = 536870912" by code_simp
  have e: "memReservedBytes (runOps srv0 opsDemo) = 0" by code_simp
  from release_clamps_reserved_nonneg [of 268435456 srvGiB opsDemo] n r
  have "sint (memReservedBytes (releaseMemory srvGiB 268435456))
          = max 0 (sint (memReservedBytes srvGiB) - sint (268435456 :: int64))"
    by blast
  from release_clamps_reserved_nonneg [of 268435456 srv0 opsDemo] z f
  have "0 \<le>s memReservedBytes (runOps srv0 opsDemo)"
    by blast
  with n r v1 v2 z f m e show ?thesis by simp
qed

text \<open>
  C7 as stated fails: with budget 0, two granted passes with the non-negative estimate
  \<open>2^62\<close>, starting from \<open>reserved = 0\<close>, leave \<open>reserved\<close> negative.
\<close>

theorem reserved_negative_counterexample:
  "memReservedBytes srv0 = 0 \<and> 0 \<le>s (4611686018427387904 :: int64) \<and>
   memReservedBytes
     (runOps srv0 [Attempt 4611686018427387904 noFiles, Attempt 4611686018427387904 noFiles]) <s 0"
  by code_simp

section \<open>The handler: release on every exit, and the type check\<close>

lemma runJob_status: "fst (runJob s env req lang) \<in> {200, 400, 500}"
  by (auto simp: runJob_def Let_def httpError_def split: option.splits prod.splits)

lemma runJob_not_text400: "runJob s env req lang \<noteq> (400, Text msg)"
  by (auto simp: runJob_def Let_def httpError_def split: option.splits prod.splits)

lemma runJob_Type: "runJob s env (req\<lparr>Type := t\<rparr>) lang = runJob s env req lang"
proof -
  have c: "Code (req\<lparr>Type := t\<rparr>) = Code req" and a: "Args (req\<lparr>Type := t\<rparr>) = Args req"
    by simp_all
  show ?thesis
    unfolding runJob_def c a by (rule refl)
qed

lemma ensureMemBudget_ok:
  "ensureMemBudget s fs = (e, s1) \<Longrightarrow> memReservedBytes s1 = memReservedBytes s \<and> cfg s1 = cfg s"
  using ensureMemBudget_keeps [of s fs] by simp

lemma jobEstimate_pos: "0 <s jobEstimate s"
  by (auto simp: jobEstimate_def Let_def word_sless_alt word_sle_eq)

text \<open>
  C5, as amended. For a request that passes validation with gating enabled, and for
  which \<open>ensureMemBudget\<close> succeeds and \<open>acquireMemory\<close> grants the estimate, the handler
  answers with the response of \<open>runJob\<close>, whose status is 200 (success), 400 (compile
  failure) or 500 (workspace failure), and in each case leaves the server on which
  \<open>releaseMemory\<close> has run with the same estimate. \<open>reserved\<close> is then back at its value
  from before the request provided that value was non-negative and the reservation did
  not overflow \<open>int64\<close> (\<open>reserved + est < 2^63\<close>).
\<close>

theorem release_on_every_exit:
  assumes "Method r = ''POST''" and "ensureDirs env = None" and "Body r = Some req"
    and "TrimSpace (Code req) \<noteq> ''''"
    and "ToLower (TrimSpace (Type req)) \<in> {''c'', ''cpp'', ''cc'', ''c++'', ''''}"
    and "EnableResourceGating (cfg s)"
    and "ensureMemBudget s (cgroupFiles env) = (None, s1)"
    and "acquireMemory s1 (jobEstimate s1) (waits env) = Some (None, s2)"
  shows "HandleCompile s r env =
           Some (runJob s2 env req
                   (if ToLower (TrimSpace (Type req)) = '''' then ''c''
                    else ToLower (TrimSpace (Type req))),
                 releaseMemory s2 (jobEstimate s1)) \<and>
         fst (runJob s2 env req
                (if ToLower (TrimSpace (Type req)) = '''' then ''c''
                 else ToLower (TrimSpace (Type req)))) \<in> {200, 400, 500} \<and>
         memReservedBytes s2 = memReservedBytes s + jobEstimate s1 \<and>
         (0 \<le>s memReservedBytes s \<and>
          sint (memReservedBytes s) + sint (jobEstimate s1) < 2 ^ 63 \<longrightarrow>
            memReservedBytes (releaseMemory s2 (jobEstimate s1)) = memReservedBytes s)"
proof -
  let ?lang = "if ToLower (TrimSpace (Type req)) = '''' then ''c''
               else ToLower (TrimSpace (Type req))"
  from assms(7) have k: "memReservedBytes s1 = memReservedBytes s"
    by (simp add: ensureMemBudget_ok)
  from assms(8) have s2: "s2 = reserve s1 (jobEstimate s1)"
    by (rule acquireMemory_granted)
  have h: "HandleCompile s r env =
      Some (runJob s2 env req ?lang, releaseMemory s2 (jobEstimate s1))"
    using assms by (auto simp: HandleCompile_def Let_def)
  have st: "fst (runJob s2 env req ?lang) \<in> {200, 400, 500}"
    by (rule runJob_status)
  have p: "0 \<le>s jobEstimate s1"
    using jobEstimate_pos [of s1] by (simp add: word_sless_alt word_sle_eq)
  have "0 \<le>s memReservedBytes s \<and> sint (memReservedBytes s) + sint (jobEstimate s1) < 2 ^ 63 \<longrightarrow>
        memReservedBytes (releaseMemory s2 (jobEstimate s1)) = memReservedBytes s"
    using release_reserve [of s1 "jobEstimate s1"] p k s2 by simp
  with h st k s2 show ?thesis
    by (simp add: reserve_simps)
qed

text \<open>
  The theorem at a request that has to wait once (budget 1 GiB, \<open>memory.current\<close> first
  at 900 MiB, then at 100 MiB) and whose compilation fails: the response is the 400 with
  the compiler's output, and \<open>reserved\<close> is back at 0.
\<close>

theorem release_on_every_exit_witness:
  "Method reqC = ''POST'' \<and> ensureDirs envBusy = None \<and> EnableResourceGating (cfg srvGate) \<and>
   ensureMemBudget srvGate (cgroupFiles envBusy) = (None, srvGate\<lparr>memBudgetBytes := 1073741824\<rparr>) \<and>
   acquireMemory (srvGate\<lparr>memBudgetBytes := 1073741824\<rparr>) 268435456 (waits envBusy)
     = Some (None, srvGate\<lparr>memBudgetBytes := 1073741824, memReservedBytes := 268435456\<rparr>) \<and>
   HandleCompile srvGate reqC envBusy
     = Some (failResponse, srvGate\<lparr>memBudgetBytes := 1073741824\<rparr>) \<and>
   memReservedBytes
     (releaseMemory (srvGate\<lparr>memBudgetBytes := 1073741824, memReservedBytes := 268435456\<rparr>) 268435456)
     = memReservedBytes srvGate"
proof -
  let ?s1 = "srvGate\<lparr>memBudgetBytes := 1073741824\<rparr>"
  let ?s2 = "srvGate\<lparr>memBudgetBytes := 1073741824, memReservedBytes := 268435456\<rparr>"
  let ?req = "\<lparr>Code = ''int main(){return 0;}'', Type = ''c'', Args = []\<rparr>"
  have a1: "Method reqC = ''POST''" by (simp add: reqC_def)
  have a2: "ensureDirs envBusy = None" by (simp add: envBusy_def env0_def)
  have a3: "Body reqC = Some ?req" by (simp add: reqC_def)
  have a4: "TrimSpace (Code ?req) \<noteq> ''''" by code_simp
  have a5: "ToLower (TrimSpace (Type ?req)) \<in> {''c'', ''cpp'', ''cc'', ''c++'', ''''}" by code_simp
  have a6: "EnableResourceGating (cfg srvGate)" by (simp add: srvGate_def)
  have a7: "ensureMemBudget srvGate (cgroupFiles envBusy) = (None, ?s1)" by code_simp
  have e: "jobEstimate ?s1 = 268435456" by code_simp
  have a8: "acquireMemory ?s1 (jobEstimate ?s1) (waits envBusy) = Some (None, ?s2)" by code_simp
  have h: "HandleCompile srvGate reqC envBusy = Some (failResponse, ?s1)" by code_simp
  have b: "0 \<le>s memReservedBytes srvGate \<and>
           sint (memReservedBytes srvGate) + sint (jobEstimate ?s1) < 2 ^ 63"
    by code_simp
  from release_on_every_exit [OF a1 a2 a3 a4 a5 a6 a7 a8] b
  have "memReservedBytes (releaseMemory ?s2 (jobEstimate ?s1)) = memReservedBytes srvGate"
    by blast
  with a1 a2 a6 a7 a8 h e show ?thesis by simp
qed

text \<open>
  C5 as stated fails. On \<open>srvHuge\<close> one request with the configured estimate of \<open>2^62\<close>
  bytes holds its reservation; for a second request \<open>acquireMemory\<close> succeeds, the
  compilation succeeds, and the handler leaves \<open>reserved\<close> at 0 and not at its value
  from before the request, \<open>2^62\<close>: the increment wrapped around to a negative number,
  and the release clamped it.
\<close>

theorem release_overflow_counterexample:
  "srvHuge = reserve srvHuge0 (jobEstimate srvHuge0) \<and>
   memReservedBytes srvHuge = 4611686018427387904 \<and>
   acquireMemory srvHuge (jobEstimate srvHuge) (waits envMax)
     = Some (None, reserve srvHuge (jobEstimate srvHuge)) \<and>
   HandleCompile srvHuge reqC envMax = Some (okResponse, srvHuge\<lparr>memReservedBytes := 0\<rparr>)"
  by code_simp

lemma lang_c: "ToLower (TrimSpace ''c'') = ''c''"
  by code_simp

text \<open>
  C9, as amended. For a POST request whose body decodes and whose code is not blank, the
  handler answers 400 with the text \<open>type must be 'c' or 'cpp'\<close> if and only if the type,
  trimmed of surrounding white space and put in lower case, is none of \<open>c\<close>, \<open>cpp\<close>,
  \<open>cc\<close>, \<open>c++\<close> and the empty string. A type that is absent (the empty string) or
  blank is treated as \<open>c\<close>: the handler does what it does for the type \<open>c\<close>.
\<close>

theorem type_rejected_iff:
  assumes "Method r = ''POST''" and "ensureDirs env = None" and "Body r = Some req"
    and "TrimSpace (Code req) \<noteq> ''''"
  shows "(ToLower (TrimSpace (Type req)) \<notin> {''c'', ''cpp'', ''cc'', ''c++'', ''''} \<longrightarrow>
            HandleCompile s r env = Some ((400, Text typeMessage), s)) \<and>
         (ToLower (TrimSpace (Type req)) \<in> {''c'', ''cpp'', ''cc'', ''c++'', ''''} \<longrightarrow>
            (\<forall>s'. HandleCompile s r env \<noteq> Some ((400, Text typeMessage), s'))) \<and>
         (ToLower (TrimSpace (Type req)) = '''' \<longrightarrow>
            HandleCompile s r env = HandleCompile s (r\<lparr>Body := Some (req\<lparr>Type := ''c''\<rparr>)\<rparr>) env)"
proof (intro conjI impI)
  assume "ToLower (TrimSpace (Type req)) \<notin> {''c'', ''cpp'', ''cc'', ''c++'', ''''}"
  with assms show "HandleCompile s r env = Some ((400, Text typeMessage), s)"
    by (simp add: HandleCompile_def Let_def httpError_def)
next
  assume v: "ToLower (TrimSpace (Type req)) \<in> {''c'', ''cpp'', ''cc'', ''c++'', ''''}"
  show "\<forall>s'. HandleCompile s r env \<noteq> Some ((400, Text typeMessage), s')"
  proof (cases "EnableResourceGating (cfg s)")
    case False
    with assms v show ?thesis
      by (auto simp: HandleCompile_def Let_def runJob_not_text400)
  next
    case True
    with assms v show ?thesis
      by (auto simp: HandleCompile_def Let_def runJob_not_text400 httpError_def
          split: prod.splits option.splits)
  qed
next
  assume e: "ToLower (TrimSpace (Type req)) = ''''"
  with assms show "HandleCompile s r env = HandleCompile s (r\<lparr>Body := Some (req\<lparr>Type := ''c''\<rparr>)\<rparr>) env"
    by (auto simp: HandleCompile_def Let_def lang_c runJob_Type split: prod.splits option.splits)
qed

text \<open>
  The theorem at the types \<open>rust\<close> (rejected), \<open>C++\<close> between blanks (accepted) and the
  empty string (handled as \<open>c\<close>), on the default server with every system call
  succeeding.
\<close>

theorem type_rejected_iff_witness:
  "HandleCompile srv0 (reqType ''rust'') env0 = Some ((400, Text typeMessage), srv0) \<and>
   ToLower (TrimSpace '' C++ '') = ''c++'' \<and>
   HandleCompile srv0 (reqType '' C++ '') env0 \<noteq> Some ((400, Text typeMessage), srv0) \<and>
   HandleCompile srv0 (reqType '''') env0 = HandleCompile srv0 (reqType ''c'') env0"
proof -
  have a1: "Method (reqType t) = ''POST''" for t
    by (simp add: reqType_def)
  have a2: "ensureDirs env0 = None"
    by (simp add: env0_def)
  have a3: "Body (reqType t) = Some \<lparr>Code = ''x'', Type = t, Args = []\<rparr>" for t
    by (simp add: reqType_def)
  have x: "TrimSpace ''x'' \<noteq> ''''"
    by code_simp
  then have a4: "TrimSpace (Code \<lparr>Code = ''x'', Type = t, Args = []\<rparr>) \<noteq> ''''" for t
    by simp
  have t1: "ToLower (TrimSpace (Type \<lparr>Code = ''x'', Type = ''rust'', Args = []\<rparr>))
              \<notin> {''c'', ''cpp'', ''cc'', ''c++'', ''''}"
    by code_simp
  have t2: "ToLower (TrimSpace (Type \<lparr>Code = ''x'', Type = '' C++ '', Args = []\<rparr>))
              \<in> {''c'', ''cpp'', ''cc'', ''c++'', ''''}"
    by code_simp
  have t3: "ToLower (TrimSpace (Type \<lparr>Code = ''x'', Type = '''', Args = []\<rparr>)) = ''''"
    by code_simp
  have l: "ToLower (TrimSpace '' C++ '') = ''c++''" by code_simp
  have u: "(reqType '''')\<lparr>Body := Some (\<lparr>Code = ''x'', Type = '''', Args = []\<rparr>\<lparr>Type := ''c''\<rparr>)\<rparr>
             = reqType ''c''"
    by (simp add: reqType_def)
  from type_rejected_iff [OF a1 a2 a3 a4, of "''rust''" srv0] t1
  have w1: "HandleCompile srv0 (reqType ''rust'') env0 = Some ((400, Text typeMessage), srv0)"
    by blast
  from type_rejected_iff [OF a1 a2 a3 a4, of "'' C++ ''" srv0] t2
  have w2: "HandleCompile srv0 (reqType '' C++ '') env0 \<noteq> Some ((400, Text typeMessage), srv0)"
    by blast
  from type_rejected_iff [OF a1 a2 a3 a4, of "''''" srv0] t3
  have "HandleCompile srv0 (reqType '''') env0 =
        HandleCompile srv0 ((reqType '''')\<lparr>Body := Some (\<lparr>Code = ''x'', Type = '''', Args = []\<rparr>\<lparr>Type := ''c''\<rparr>)\<rparr>) env0"
    by blast
  with u have w3: "HandleCompile srv0 (reqType '''') env0 = HandleCompile srv0 (reqType ''c'') env0"
    by simp
  from w1 w2 w3 l show ?thesis by simp
qed

text \<open>
  C9 as stated fails: the type \<open>CPP\<close> is present and is not one of the four strings,
  and the request is not rejected; with every system call succeeding the response is
  the 200.
\<close>

theorem type_uppercase_counterexample:
  "''CPP'' \<notin> {''c'', ''cpp'', ''cc'', ''c++''} \<and>
   HandleCompile srv0 (reqType ''CPP'') env0 = Some (okResponse, srv0)"
  by code_simp

section \<open>The cgroup probe\<close>

lemma takeWhile_all: "list_all P xs \<Longrightarrow> takeWhile (\<lambda>c. P c \<or> Q c) xs = xs"
  by (induction xs) auto

lemma Sscanf_d_digits:
  assumes "t \<noteq> []" "list_all isDigit t" "decimal t < 2 ^ 63"
  shows "Sscanf_d t = (word_of_int (decimal t), None)"
proof -
  from assms(1,2) have "isDigit (hd t)" by (cases t) auto
  then have "hd t \<noteq> CHR ''+'' \<and> hd t \<noteq> CHR ''-''"
    by (auto simp: isDigit_def)
  with assms show ?thesis
    by (simp add: Sscanf_d_def Let_def takeWhile_all)
qed

text \<open>
  C8, as amended. \<open>readCgroupMemoryMax\<close> returns the error \<open>cgroup root not set\<close> (with
  the value 0) when the root is the empty string. For another root it reads
  \<open><root>/memory.max\<close>: a read failure is returned as the error; content that is \<open>max\<close>
  once trimmed of white space gives 0 without error; any other content is scanned as a
  decimal number, a scan failure is returned as the error, and content that is a
  non-empty string of digits below \<open>2^63\<close> gives that number without error.
\<close>

theorem readMax_cases:
  "readCgroupMemoryMax '''' fs = (0, Some ''cgroup root not set'') \<and>
   (root \<noteq> '''' \<and> fs (Join [root, ''memory.max'']) = (b, Some err) \<longrightarrow>
      readCgroupMemoryMax root fs = (0, Some err)) \<and>
   (root \<noteq> '''' \<and> fs (Join [root, ''memory.max'']) = (b, None) \<and> TrimSpace b = ''max'' \<longrightarrow>
      readCgroupMemoryMax root fs = (0, None)) \<and>
   (root \<noteq> '''' \<and> fs (Join [root, ''memory.max'']) = (b, None) \<and> TrimSpace b \<noteq> ''max'' \<and>
    Sscanf_d (TrimSpace b) = (v, Some err) \<longrightarrow>
      readCgroupMemoryMax root fs = (0, Some err)) \<and>
   (root \<noteq> '''' \<and> fs (Join [root, ''memory.max'']) = (b, None) \<and>
    TrimSpace b \<noteq> [] \<and> list_all isDigit (TrimSpace b) \<and> decimal (TrimSpace b) < 2 ^ 63 \<longrightarrow>
      readCgroupMemoryMax root fs = (word_of_int (decimal (TrimSpace b)), None))"
proof -
  have "TrimSpace b \<noteq> ''max''" if "list_all isDigit (TrimSpace b)"
    using that by (auto simp: isDigit_def)
  then show ?thesis
    by (auto simp: readCgroupMemoryMax_def Let_def Sscanf_d_digits)
qed

text \<open>
  The theorem at a root without files, and at the root \<open>cgroup\<close> with \<open>memory.max\<close>
  holding \<open>max\<close> and a line feed, the word \<open>lots\<close>, and \<open>1073741824\<close> and a line feed.
\<close>

theorem readMax_cases_witness:
  "readCgroupMemoryMax ''nowhere'' (cgroupWith ''max'' ''0'') = (0, Some ''no such file or directory'') \<and>
   TrimSpace (''max'' @ [CHR 0x0A]) = ''max'' \<and>
   readCgroupMemoryMax ''cgroup'' (cgroupWith (''max'' @ [CHR 0x0A]) ''0'') = (0, None) \<and>
   Sscanf_d (TrimSpace ''lots'') = (0, Some ''expected integer'') \<and>
   readCgroupMemoryMax ''cgroup'' (cgroupWith ''lots'' ''0'') = (0, Some ''expected integer'') \<and>
   decimal (TrimSpace (''1073741824'' @ [CHR 0x0A])) = 1073741824 \<and>
   readCgroupMemoryMax ''cgroup'' (cgroupWith (''1073741824'' @ [CHR 0x0A]) ''0'') = (1073741824, None)"
proof -
  have r1: "''nowhere'' \<noteq> '''' \<and>
            cgroupWith ''max'' ''0'' (Join [''nowhere'', ''memory.max'']) = ('''', Some ''no such file or directory'')"
    by code_simp
  have r2: "''cgroup'' \<noteq> '''' \<and>
            cgroupWith (''max'' @ [CHR 0x0A]) ''0'' (Join [''cgroup'', ''memory.max'']) = (''max'' @ [CHR 0x0A], None) \<and>
            TrimSpace (''max'' @ [CHR 0x0A]) = ''max''"
    by code_simp
  have r3: "''cgroup'' \<noteq> '''' \<and>
            cgroupWith ''lots'' ''0'' (Join [''cgroup'', ''memory.max'']) = (''lots'', None) \<and>
            TrimSpace ''lots'' \<noteq> ''max'' \<and>
            Sscanf_d (TrimSpace ''lots'') = (0, Some ''expected integer'')"
    by code_simp
  have r4: "''cgroup'' \<noteq> '''' \<and>
            cgroupWith (''1073741824'' @ [CHR 0x0A]) ''0'' (Join [''cgroup'', ''memory.max''])
              = (''1073741824'' @ [CHR 0x0A], None) \<and>
            TrimSpace (''1073741824'' @ [CHR 0x0A]) \<noteq> [] \<and>
            list_all isDigit (TrimSpace (''1073741824'' @ [CHR 0x0A])) \<and>
            decimal (TrimSpace (''1073741824'' @ [CHR 0x0A])) < 2 ^ 63"
    by code_simp
  have d: "decimal (TrimSpace (''1073741824'' @ [CHR 0x0A])) = 1073741824"
    by code_simp
  from readMax_cases [where root = "''nowhere''" and fs = "cgroupWith ''max'' ''0''"
      and b = "''''" and err = "''no such file or directory''"] r1
  have c1: "readCgroupMemoryMax ''nowhere'' (cgroupWith ''max'' ''0'')
              = (0, Some ''no such file or directory'')"
    by blast
  from readMax_cases [where root = "''cgroup''" and fs = "cgroupWith (''max'' @ [CHR 0x0A]) ''0''"
      and b = "''max'' @ [CHR 0x0A]"] r2
  have c2: "readCgroupMemoryMax ''cgroup'' (cgroupWith (''max'' @ [CHR 0x0A]) ''0'') = (0, None)"
    by blast
  from readMax_cases [where root = "''cgroup''" and fs = "cgroupWith ''lots'' ''0''"
      and b = "''lots''" and v = 0 and err = "''expected integer''"] r3
  have c3: "readCgroupMemoryMax ''cgroup'' (cgroupWith ''lots'' ''0'') = (0, Some ''expected integer'')"
    by blast
  from readMax_cases [where root = "''cgroup''" and fs = "cgroupWith (''1073741824'' @ [CHR 0x0A]) ''0''"
      and b = "''1073741824'' @ [CHR 0x0A]"] r4
  have c4: "readCgroupMemoryMax ''cgroup'' (cgroupWith (''1073741824'' @ [CHR 0x0A]) ''0'')
              = (word_of_int (decimal (TrimSpace (''1073741824'' @ [CHR 0x0A]))), None)"
    by blast
  from c1 c2 c3 c4 r2 r3 d show ?thesis by simp
qed

text \<open>
  C8 as stated fails: for the empty root the result is not 0 without error; it carries
  the error \<open>cgroup root not set\<close>.
\<close>

theorem readMax_empty_root_counterexample:
  "readCgroupMemoryMax '''' (cgroupWith ''max'' ''0'') = (0, Some ''cgroup root not set'')"
  by code_simp

section \<open>The reclaimer with a TTL of zero\<close>

text \<open>
  C1 is not what the code does. With \<open>artifactTTLDays = 0\<close> the TTL is 0, and the first
  pass of the loop removes a directory whose modification time lies one second before
  the scan: its age exceeds the TTL.
\<close>

theorem ttl_zero_removes:
  "ArtifactTTL (cfg (NewServer cfgNoTTL)) = 0 \<and>
   snd (StartCleanupLoop (NewServer cfgNoTTL)
          [([(''0a1b2c3d'', (\<lparr>IsDir = True, ModTime = 1000000000\<rparr>, None), 2000000000)], None)])
     = [[''artifacts/0a1b2c3d'']]"
  by code_simp

end
